theory Spec2Isabelle
  imports Complex_Main "HOL-Library.Multiset" "HOL-Library.Sublist" "HOL-Library.Char_ord"
    "HOL-Library.List_Lexorder" "HOL-Library.Product_Lexorder"
begin

section \<open>The price pipeline of the data engineering lab\<close>

text \<open>
  The repository's program is the notebook \<^verbatim>\<open>01_materials/labs/02_data_engineering.ipynb\<close>.
  Its cells download daily prices for a list of tickers in one batch, reshape the wide
  response into one row per ticker and day, store the rows as parquet datasets laid out
  by ticker and year (the bronze store), read all the parquet files back, add the lagged
  close and the return, and store the result (the silver store). The notebook names the
  two stages \<^verbatim>\<open>download_all\<close> and \<^verbatim>\<open>featurize\<close>; the class that packages them is not
  part of the sources, so the stages are modelled from the cells themselves.

  Library calls are modelled by their documented behaviour:
  \<^item> a pandas float column holds IEEE doubles, where a missing value is NaN and a
    division by zero gives an infinity or NaN instead of raising; finite arithmetic is
    taken exactly (rounding and the sign of zero are not modelled);
  \<^item> \<^verbatim>\<open>os.path.join\<close> is the POSIX one; a location is the path string it returns (the
    file system's own resolution of dots and links is not modelled);
  \<^item> a file is addressed by the directory of its dataset and its part number
    (\<^verbatim>\<open>dir/part.N.parquet\<close>), and writing one file is one step;
  \<^item> the order in which the parquet files are listed and then read is not chosen by
    the notebook (it is that of \<^verbatim>\<open>glob\<close> and of the reader); it is an input of the model.
\<close>

subsection \<open>Float columns\<close>

datatype float64 = NaN | PInf | NInf | Fin real

text \<open>\<^verbatim>\<open>a / b\<close> on float columns.\<close>

fun fdiv :: "float64 \<Rightarrow> float64 \<Rightarrow> float64" where
  "fdiv NaN _ = NaN"
| "fdiv _ NaN = NaN"
| "fdiv (Fin a) (Fin b) =
     (if b = 0 then (if a = 0 then NaN else if 0 < a then PInf else NInf) else Fin (a / b))"
| "fdiv (Fin a) PInf = Fin 0"
| "fdiv (Fin a) NInf = Fin 0"
| "fdiv PInf (Fin b) = (if 0 \<le> b then PInf else NInf)"
| "fdiv NInf (Fin b) = (if 0 \<le> b then NInf else PInf)"
| "fdiv PInf PInf = NaN"
| "fdiv PInf NInf = NaN"
| "fdiv NInf PInf = NaN"
| "fdiv NInf NInf = NaN"

text \<open>\<^verbatim>\<open>a - b\<close> on float columns.\<close>

fun fsub :: "float64 \<Rightarrow> float64 \<Rightarrow> float64" where
  "fsub NaN _ = NaN"
| "fsub _ NaN = NaN"
| "fsub (Fin a) (Fin b) = Fin (a - b)"
| "fsub (Fin a) PInf = NInf"
| "fsub (Fin a) NInf = PInf"
| "fsub PInf (Fin b) = PInf"
| "fsub NInf (Fin b) = NInf"
| "fsub PInf PInf = NaN"
| "fsub PInf NInf = PInf"
| "fsub NInf PInf = NInf"
| "fsub NInf NInf = NaN"

subsection \<open>Frames\<close>

text \<open>A date is (year, month, day), ordered lexicographically.\<close>

type_synonym date = "nat \<times> nat \<times> nat"

text \<open>
  \<^verbatim>\<open>tech_raw_dt\<close>, the response of \<^verbatim>\<open>yf.download\<close>: a wide frame indexed by date whose
  columns are pairs (price, ticker).
\<close>

record raw_frame =
  raw_index :: "date list"
  raw_tickers :: "string list"
  raw_cell :: "string \<Rightarrow> string \<Rightarrow> date \<Rightarrow> float64"

text \<open>A row of \<^verbatim>\<open>tech_dt\<close>: one ticker on one day.\<close>

record prow =
  Date :: date
  Ticker :: string
  Close :: float64
  High :: float64
  Low :: float64
  Open :: float64
  Volume :: float64

text \<open>A row of a bronze partition: \<^verbatim>\<open>ticker_dt.assign(Year = ticker_dt.Date.dt.year)\<close>.\<close>

record brow = prow +
  Year :: nat

text \<open>A row of \<^verbatim>\<open>dd_shift\<close> and a row of \<^verbatim>\<open>dd_rets\<close>.\<close>

record srow = brow +
  Close_lag_1 :: float64

record frow = srow +
  Returns :: float64

text \<open>
  \<^verbatim>\<open>tech_raw_dt.stack(future_stack=True).reset_index()\<close>: the ticker level of the columns
  becomes a row level. With \<^verbatim>\<open>future_stack=True\<close> no row is dropped: every date is
  paired with every ticker of the columns, whatever the cells hold.
\<close>

definition stack_row :: "raw_frame \<Rightarrow> date \<Rightarrow> string \<Rightarrow> prow" where
  "stack_row raw d t =
     \<lparr>Date = d, Ticker = t,
      Close = raw_cell raw ''Close'' t d, High = raw_cell raw ''High'' t d,
      Low = raw_cell raw ''Low'' t d, Open = raw_cell raw ''Open'' t d,
      Volume = raw_cell raw ''Volume'' t d\<rparr>"

definition stack :: "raw_frame \<Rightarrow> prow list" where
  "stack raw = concat (map (\<lambda>d. map (stack_row raw d) (raw_tickers raw)) (raw_index raw))"

text \<open>
  \<^verbatim>\<open>tech_dt = (tech_raw_dt.stack(future_stack=True).reset_index()
                     .sort_values(['Ticker', 'Date']))\<close>
\<close>

definition tech_dt :: "raw_frame \<Rightarrow> prow list" where
  "tech_dt raw = sort_key (\<lambda>r. (Ticker r, Date r)) (stack raw)"

text \<open>\<^verbatim>\<open>Series.unique()\<close>: the distinct values in order of first appearance.\<close>

definition unique :: "'a list \<Rightarrow> 'a list" where
  "unique xs = rev (remdups (rev xs))"

subsection \<open>Paths\<close>

type_synonym path = string

definition sep :: char where
  "sep = CHR ''/''"

definition startswith_sep :: "string \<Rightarrow> bool" where
  "startswith_sep b = (case b of [] \<Rightarrow> False | c # _ \<Rightarrow> c = sep)"

definition endswith_sep :: "string \<Rightarrow> bool" where
  "endswith_sep a = (a \<noteq> [] \<and> last a = sep)"

text \<open>
  One round of the loop of \<^verbatim>\<open>posixpath.join\<close>: a component that starts with the
  separator replaces what was joined so far.
\<close>

definition join2 :: "path \<Rightarrow> path \<Rightarrow> path" where
  "join2 a b = (if startswith_sep b then b
                else if a = [] \<or> endswith_sep a then a @ b
                else a @ [sep] @ b)"

definition os_path_join :: "path \<Rightarrow> path list \<Rightarrow> path" where
  "os_path_join a ps = foldl join2 a ps"

definition digit_char :: "nat \<Rightarrow> char" where
  "digit_char d =
     (if d = 0 then CHR ''0'' else if d = 1 then CHR ''1'' else if d = 2 then CHR ''2''
      else if d = 3 then CHR ''3'' else if d = 4 then CHR ''4'' else if d = 5 then CHR ''5''
      else if d = 6 then CHR ''6'' else if d = 7 then CHR ''7'' else if d = 8 then CHR ''8''
      else CHR ''9'')"

text \<open>The decimal digits of a year, as the f-string prints them.\<close>

fun str_nat :: "nat \<Rightarrow> string" where
  "str_nat n = (if n < 10 then [digit_char n] else str_nat (n div 10) @ [digit_char (n mod 10)])"

declare str_nat.simps [simp del]

text \<open>\<^verbatim>\<open>yr_path = os.path.join(PRICE_DATA, ticker, f"{ticker}_{yr}")\<close>\<close>

definition yr_path :: "path \<Rightarrow> string \<Rightarrow> nat \<Rightarrow> path" where
  "yr_path PRICE_DATA ticker yr = os_path_join PRICE_DATA [ticker, ticker @ ''_'' @ str_nat yr]"

text \<open>
  The paths inside the directory \<open>dir\<close>: the directory itself and what lies below it.
  The empty path names no directory (\<^verbatim>\<open>os.path.exists('')\<close> is false).
\<close>

definition in_tree :: "path \<Rightarrow> path \<Rightarrow> bool" where
  "in_tree dir p = (dir \<noteq> [] \<and> (p = dir \<or> prefix (join2 dir []) p))"

subsection \<open>The file store\<close>

text \<open>
  A store maps a file, given by the directory of its dataset and its part number, to
  the rows it holds. The effects of the notebook on a store are removing a tree and
  writing one part file; a run is a sequence of them, and an interrupted run is a
  prefix of that sequence.
\<close>

type_synonym 'r store = "path \<times> nat \<Rightarrow> 'r list option"

datatype 'r action = Rmtree path | WritePart path nat "'r list"

text \<open>\<^verbatim>\<open>shutil.rmtree(dir)\<close>\<close>

definition rmtree :: "path \<Rightarrow> 'r store \<Rightarrow> 'r store" where
  "rmtree dir st = (\<lambda>f. if in_tree dir (fst f) then None else st f)"

fun exec :: "'r action \<Rightarrow> 'r store \<Rightarrow> 'r store" where
  "exec (Rmtree dir) st = rmtree dir st"
| "exec (WritePart p i rows) st = st((p, i) \<mapsto> rows)"

definition run :: "'r action list \<Rightarrow> 'r store \<Rightarrow> 'r store" where
  "run acts st = fold exec acts st"

text \<open>
  \<^verbatim>\<open>if os.path.exists(dir): shutil.rmtree(dir)\<close>. Removing a tree that holds nothing
  changes nothing, so the guard only keeps \<^verbatim>\<open>rmtree\<close> from raising.
\<close>

definition cleanup :: "path \<Rightarrow> 'r store \<Rightarrow> 'r store" where
  "cleanup dir st = rmtree dir st"

text \<open>
  \<^verbatim>\<open>dd.from_pandas(df, npartitions)\<close>: the rows of the frame in consecutive chunks of
  \<open>ceil(len(df) / npartitions)\<close> rows; an empty frame is one empty partition. (The frame
  keeps its order: the labels of its index, by which dask orders the rows, ascend along
  \<^verbatim>\<open>tech_dt\<close> within a ticker when the dates of the response ascend. Where exactly dask
  cuts is of no concern below, only that the partitions put together are the frame.)
\<close>

function chunks :: "nat \<Rightarrow> 'a list \<Rightarrow> 'a list list" where
  "chunks k xs = (if k = 0 \<or> xs = [] then [] else take k xs # chunks k (drop k xs))"
  by pat_completeness auto
termination
  by (relation "measure (\<lambda>(k, xs). length xs)") auto

declare chunks.simps [simp del]

definition from_pandas :: "'a list \<Rightarrow> nat \<Rightarrow> 'a list list" where
  "from_pandas df npartitions =
     (if df = [] then [[]] else chunks ((length df + npartitions - 1) div npartitions) df)"

text \<open>
  \<^verbatim>\<open>ddf.to_parquet(path)\<close> writes partition \<open>i\<close> of the frame to \<^verbatim>\<open>path/part.i.parquet\<close>,
  directly at \<open>path\<close>. Files of \<open>path\<close> it does not write stay as they are.
\<close>

definition to_parquet_trace :: "path \<Rightarrow> 'r list list \<Rightarrow> 'r action list" where
  "to_parquet_trace p parts = map (\<lambda>(i, rows). WritePart p i rows) (enumerate 0 parts)"

definition to_parquet :: "path \<Rightarrow> 'r list list \<Rightarrow> 'r store \<Rightarrow> 'r store" where
  "to_parquet p parts st = fold (\<lambda>(i, rows) s. s((p, i) \<mapsto> rows)) (enumerate 0 parts) st"

subsection \<open>Storing prices: the bronze store\<close>

definition assign_Year :: "prow \<Rightarrow> brow" where
  "assign_Year r =
     \<lparr>Date = Date r, Ticker = Ticker r, Close = Close r, High = High r, Low = Low r,
      Open = Open r, Volume = Volume r, Year = fst (Date r)\<rparr>"

text \<open>
  The body of the inner loop:
  \<^verbatim>\<open>yr_dd = dd.from_pandas(ticker_dt[ticker_dt['Year'] == yr], 2)
  yr_path = os.path.join(PRICE_DATA, ticker, f"{ticker}_{yr}")
  os.makedirs(os.path.dirname(yr_path), exist_ok=True)
  yr_dd.to_parquet(yr_path, engine = "pyarrow")\<close>
  (\<^verbatim>\<open>makedirs\<close> creates directories only, which hold no file.)
\<close>

definition yr_dd :: "brow list \<Rightarrow> nat \<Rightarrow> brow list list" where
  "yr_dd ticker_dt yr = from_pandas (filter (\<lambda>r. Year r = yr) ticker_dt) 2"

definition write_yr :: "path \<Rightarrow> string \<Rightarrow> brow list \<Rightarrow> nat \<Rightarrow> brow store \<Rightarrow> brow store" where
  "write_yr PRICE_DATA ticker ticker_dt yr st =
     to_parquet (yr_path PRICE_DATA ticker yr) (yr_dd ticker_dt yr) st"

text \<open>
  The body of the outer loop:
  \<^verbatim>\<open>ticker_dt = tech_dt[tech_dt['Ticker'] == ticker]
  ticker_dt = ticker_dt.assign(Year = ticker_dt.Date.dt.year)
  for yr in ticker_dt['Year'].unique(): ...\<close>
\<close>

definition ticker_dt :: "prow list \<Rightarrow> string \<Rightarrow> brow list" where
  "ticker_dt dt ticker = map assign_Year (filter (\<lambda>r. Ticker r = ticker) dt)"

definition write_ticker :: "path \<Rightarrow> prow list \<Rightarrow> string \<Rightarrow> brow store \<Rightarrow> brow store" where
  "write_ticker PRICE_DATA dt ticker st =
     fold (write_yr PRICE_DATA ticker (ticker_dt dt ticker))
       (unique (map Year (ticker_dt dt ticker))) st"

text \<open>\<^verbatim>\<open>for ticker in tech_dt['Ticker'].unique(): ...\<close>\<close>

definition ingest :: "path \<Rightarrow> prow list \<Rightarrow> brow store \<Rightarrow> brow store" where
  "ingest PRICE_DATA dt st = fold (write_ticker PRICE_DATA dt) (unique (map Ticker dt)) st"

text \<open>The same loops as the sequence of file writes they perform.\<close>

definition yr_trace :: "path \<Rightarrow> string \<Rightarrow> brow list \<Rightarrow> nat \<Rightarrow> brow action list" where
  "yr_trace PRICE_DATA ticker rows yr =
     to_parquet_trace (yr_path PRICE_DATA ticker yr) (yr_dd rows yr)"

definition ticker_trace :: "path \<Rightarrow> prow list \<Rightarrow> string \<Rightarrow> brow action list" where
  "ticker_trace PRICE_DATA dt ticker =
     concat (map (yr_trace PRICE_DATA ticker (ticker_dt dt ticker))
       (unique (map Year (ticker_dt dt ticker))))"

definition ingest_trace :: "path \<Rightarrow> prow list \<Rightarrow> brow action list" where
  "ingest_trace PRICE_DATA dt = concat (map (ticker_trace PRICE_DATA dt) (unique (map Ticker dt)))"

subsection \<open>The stage download_all\<close>

datatype error = FetchError | ConfigurationError | ReadError

text \<open>
  A request to the provider: the tickers and the date range. The provider is an input
  of the model: it answers a request with a wide frame, or raises (\<open>None\<close>).
\<close>

type_synonym request = "string list \<times> date \<times> date"

type_synonym provider = "request \<Rightarrow> raw_frame option"

text \<open>\<^verbatim>\<open>yf.download(tech_tickers, start = "2000-01-01", end = "2025-01-26")\<close>\<close>

definition start_date :: date where
  "start_date = (2000, 1, 1)"

definition end_date :: date where
  "end_date = (2025, 1, 26)"

text \<open>The bronze store and the requests sent to the provider so far.\<close>

record world =
  bronze :: "brow store"
  requests :: "request list"

text \<open>
  The cells in their order: the batch download, the reshaping into \<^verbatim>\<open>tech_dt\<close>, then
  \<^verbatim>\<open>PRICE_DATA = os.getenv("PRICE_DATA")\<close> (\<open>None\<close> when the variable is not set, on which
  \<^verbatim>\<open>os.path.exists\<close> raises), the clean up and the two loops. No cell catches an
  exception, so the first one ends the run.
\<close>

definition download_all ::
    "provider \<Rightarrow> string list \<Rightarrow> path option \<Rightarrow> world \<Rightarrow> error + world" where
  "download_all yf_download tech_tickers PRICE_DATA w =
     (case yf_download (tech_tickers, start_date, end_date) of
        None \<Rightarrow> Inl FetchError
      | Some tech_raw_dt \<Rightarrow>
          (case PRICE_DATA of
             None \<Rightarrow> Inl ConfigurationError
           | Some dir \<Rightarrow>
               Inr \<lparr>bronze = ingest dir (tech_dt tech_raw_dt) (cleanup dir (bronze w)),
                    requests = requests w @ [(tech_tickers, start_date, end_date)]\<rparr>))"

text \<open>The file-system steps of a run that got its response, in order.\<close>

definition download_trace :: "path \<Rightarrow> prow list \<Rightarrow> brow action list" where
  "download_trace dir dt = Rmtree dir # ingest_trace dir dt"

subsection \<open>The stage featurize\<close>


text \<open>Reading the listed files one after the other; a missing file raises.\<close>

fun read_files :: "'r store \<Rightarrow> (path \<times> nat) list \<Rightarrow> 'r list option" where
  "read_files st [] = Some []"
| "read_files st (f # fs) =
     (case st f of
        None \<Rightarrow> None
      | Some rows \<Rightarrow> (case read_files st fs of None \<Rightarrow> None | Some rest \<Rightarrow> Some (rows @ rest)))"

text \<open>\<^verbatim>\<open>dd.read_parquet(parquet_files)\<close>; an empty list of paths raises.\<close>

definition read_parquet :: "'r store \<Rightarrow> (path \<times> nat) list \<Rightarrow> 'r list option" where
  "read_parquet st parquet_files = (if parquet_files = [] then None else read_files st parquet_files)"

text \<open>
  \<^verbatim>\<open>.set_index("Ticker")\<close>: the frame ordered by its new index, rows of the same ticker
  staying in the order they had.
\<close>

definition set_index_Ticker :: "brow list \<Rightarrow> brow list" where
  "set_index_Ticker df = sort_key Ticker df"

definition dd_px :: "brow store \<Rightarrow> (path \<times> nat) list \<Rightarrow> brow list option" where
  "dd_px st parquet_files = map_option set_index_Ticker (read_parquet st parquet_files)"

text \<open>\<^verbatim>\<open>x['Close'].shift(1)\<close>: every value moves down one row, the first row gets NaN.\<close>

definition shift1 :: "float64 list \<Rightarrow> float64 list" where
  "shift1 xs = take (length xs) (NaN # xs)"

definition with_lag :: "brow \<Rightarrow> float64 \<Rightarrow> srow" where
  "with_lag r l =
     \<lparr>Date = Date r, Ticker = Ticker r, Close = Close r, High = High r, Low = Low r,
      Open = Open r, Volume = Volume r, Year = Year r, Close_lag_1 = l\<rparr>"

text \<open>\<^verbatim>\<open>lambda x: x.assign(Close_lag_1 = x['Close'].shift(1))\<close>\<close>

definition assign_Close_lag_1 :: "brow list \<Rightarrow> srow list" where
  "assign_Close_lag_1 x = map2 with_lag x (shift1 (map Close x))"

text \<open>
  \<^verbatim>\<open>dd_shift = dd_px.groupby('Ticker', group_keys=False).apply(...)\<close>: the function is
  applied to the rows of each ticker, in the order the frame has them, and the groups
  are put together in the order of their keys.
\<close>

definition dd_shift :: "brow list \<Rightarrow> srow list" where
  "dd_shift df =
     concat (map (\<lambda>t. assign_Close_lag_1 (filter (\<lambda>r. Ticker r = t) df))
       (sort (remdups (map Ticker df))))"

text \<open>\<^verbatim>\<open>dd_rets = dd_shift.assign(Returns = lambda x: x['Close']/x['Close_lag_1'] - 1)\<close>\<close>

definition with_returns :: "srow \<Rightarrow> frow" where
  "with_returns r =
     \<lparr>Date = Date r, Ticker = Ticker r, Close = Close r, High = High r, Low = Low r,
      Open = Open r, Volume = Volume r, Year = Year r, Close_lag_1 = Close_lag_1 r,
      Returns = fsub (fdiv (Close r) (Close_lag_1 r)) (Fin 1)\<rparr>"

definition dd_rets :: "srow list \<Rightarrow> frow list" where
  "dd_rets df = map with_returns df"

text \<open>
  \<^verbatim>\<open>if os.path.exists(FEATURES_DATA): shutil.rmtree(FEATURES_DATA)
  dd_rets.to_parquet(FEATURES_DATA, overwrite = True)\<close>
  With \<^verbatim>\<open>overwrite = True\<close>, \<^verbatim>\<open>to_parquet\<close> removes the directory before it writes the
  part files. How the frame is divided into partitions is an input of the model.
\<close>

definition save_trace :: "path \<Rightarrow> 'r list list \<Rightarrow> 'r action list" where
  "save_trace FEATURES_DATA parts =
     Rmtree FEATURES_DATA # Rmtree FEATURES_DATA # to_parquet_trace FEATURES_DATA parts"

definition save :: "path \<Rightarrow> 'r list list \<Rightarrow> 'r store \<Rightarrow> 'r store" where
  "save FEATURES_DATA parts st =
     to_parquet FEATURES_DATA parts (rmtree FEATURES_DATA (cleanup FEATURES_DATA st))"

definition featurize ::
    "(frow list \<Rightarrow> frow list list) \<Rightarrow> (path \<times> nat) list \<Rightarrow> path option \<Rightarrow>
     brow store \<Rightarrow> frow store \<Rightarrow> error + frow store" where
  "featurize partitions parquet_files FEATURES_DATA bronze_st silver_st =
     (case dd_px bronze_st parquet_files of
        None \<Rightarrow> Inl ReadError
      | Some df \<Rightarrow>
          (case FEATURES_DATA of
             None \<Rightarrow> Inl ConfigurationError
           | Some dir \<Rightarrow> Inr (save dir (partitions (dd_rets (dd_shift df))) silver_st)))"

subsection \<open>Auxiliary notions and test data\<close>

text \<open>The rows of one symbol, in the order the frame has them.\<close>

definition series :: "string \<Rightarrow> ('a prow_scheme) list \<Rightarrow> ('a prow_scheme) list" where
  "series t df = filter (\<lambda>r. Ticker r = t) df"





text \<open>
  Test data: a price row whose columns all hold \<open>c\<close>, a response built from one cell
  function, a provider that answers every request with the same response and one that
  cannot be reached.
\<close>

definition px :: "string \<Rightarrow> date \<Rightarrow> real \<Rightarrow> prow" where
  "px t d c =
     \<lparr>Date = d, Ticker = t, Close = Fin c, High = Fin c, Low = Fin c, Open = Fin c,
      Volume = Fin c\<rparr>"

definition quotes :: "date list \<Rightarrow> string list \<Rightarrow> (string \<Rightarrow> date \<Rightarrow> float64) \<Rightarrow> raw_frame" where
  "quotes ds ts f = \<lparr>raw_index = ds, raw_tickers = ts, raw_cell = (\<lambda>c. f)\<rparr>"

definition answering :: "raw_frame \<Rightarrow> provider" where
  "answering raw = (\<lambda>req. Some raw)"


definition new_world :: world where
  "new_world = \<lparr>bronze = Map.empty, requests = []\<rparr>"

text \<open>The synthetic symbol of the lag test: closes 10, 20, 30 on three consecutive days.\<close>

definition syn_raw :: raw_frame where
  "syn_raw = quotes [(2024, 1, 2), (2024, 1, 3), (2024, 1, 4)] [''SYN'']
     (\<lambda>t d. Fin (if d = (2024, 1, 2) then 10 else if d = (2024, 1, 3) then 20 else 30))"

definition syn_dt :: "prow list" where
  "syn_dt = [px ''SYN'' (2024, 1, 2) 10, px ''SYN'' (2024, 1, 3) 20, px ''SYN'' (2024, 1, 4) 30]"

definition syn_df :: "brow list" where
  "syn_df = map assign_Year syn_dt"

definition syn_bronze :: "brow store" where
  "syn_bronze = run (download_trace ''/data'' syn_dt) Map.empty"

definition syn_files :: "(path \<times> nat) list" where
  "syn_files = [(''/data/SYN/SYN_2024'', 0), (''/data/SYN/SYN_2024'', 1)]"


definition zero_row :: frow where
  "zero_row = with_returns (with_lag (assign_Year (px ''SYN'' (2024, 1, 3) 5)) (Fin 0))"

text \<open>Five symbols on one day, the provider having no data for the last one.\<close>

definition five :: "string list" where
  "five = [''A'', ''B'', ''C'', ''D'', ''E'']"

definition five_raw :: raw_frame where
  "five_raw = quotes [(2024, 1, 2)] five (\<lambda>t d. if t = ''E'' then NaN else Fin 1)"











text \<open>A silver store that holds an earlier result.\<close>

definition old_silver :: "frow store" where
  "old_silver = [(''/features'', 0) \<mapsto> [zero_row]]"

section \<open>Properties\<close>

subsection \<open>Partition paths\<close>




















subsection \<open>Runs as sequences of file writes\<close>

lemma set_unique [simp]: "set (unique xs) = set xs"
  by (simp add: unique_def)

lemma distinct_unique [simp]: "distinct (unique xs)"
  by (simp add: unique_def)

lemma run_Nil [simp]: "run [] st = st"
  by (simp add: run_def)

lemma run_Cons [simp]: "run (a # acts) st = run acts (exec a st)"
  by (simp add: run_def)

lemma run_append [simp]: "run (as @ bs) st = run bs (run as st)"
  by (simp add: run_def)

lemma run_concat: "run (concat (map g xs)) st = fold (\<lambda>x. run (g x)) xs st"
  by (induction xs arbitrary: st) simp_all

lemma fold_writes_run:
  "fold (\<lambda>(i, rows) s. s((p, i) \<mapsto> rows)) xs st = run (map (\<lambda>(i, rows). WritePart p i rows) xs) st"
  by (induction xs arbitrary: st) auto

lemma to_parquet_run: "to_parquet p parts st = run (to_parquet_trace p parts) st"
  by (simp add: to_parquet_def to_parquet_trace_def fold_writes_run)

lemma write_yr_run: "write_yr dir t rows y st = run (yr_trace dir t rows y) st"
  by (simp add: write_yr_def yr_trace_def to_parquet_run)

lemma write_ticker_run: "write_ticker dir dt t st = run (ticker_trace dir dt t) st"
  by (simp add: write_ticker_def ticker_trace_def run_concat write_yr_run [abs_def])

lemma ingest_run: "ingest dir dt st = run (ingest_trace dir dt) st"
  by (simp add: ingest_def ingest_trace_def run_concat write_ticker_run [abs_def])


















subsection \<open>Runs of download_all and of save\<close>

lemma Ticker_stack_row [simp]: "Ticker (stack_row raw d t) = t"
  by (simp add: stack_row_def)

lemma Date_stack_row [simp]: "Date (stack_row raw d t) = d"
  by (simp add: stack_row_def)

lemma set_tech_dt:
  "set (tech_dt raw) =
     {stack_row raw d t | d t. d \<in> set (raw_index raw) \<and> t \<in> set (raw_tickers raw)}"
  by (auto simp: tech_dt_def stack_def)

lemma download_all_Inr:
  "download_all yf ts (Some dir) w = Inr w' \<longleftrightarrow>
   (\<exists>raw. yf (ts, start_date, end_date) = Some raw \<and>
      w' = \<lparr>bronze = run (download_trace dir (tech_dt raw)) (bronze w),
            requests = requests w @ [(ts, start_date, end_date)]\<rparr>)"
  by (auto simp: download_all_def download_trace_def ingest_run cleanup_def split: option.splits)

lemma download_answering:
  "download_all (answering raw) ts (Some dir) w =
     Inr \<lparr>bronze = run (download_trace dir (tech_dt raw)) (bronze w),
          requests = requests w @ [(ts, start_date, end_date)]\<rparr>"
  by (simp add: download_all_Inr answering_def)










lemma to_parquet_trace_snoc:
  "to_parquet_trace p (parts @ [c]) = to_parquet_trace p parts @ [WritePart p (length parts) c]"
  by (simp add: to_parquet_trace_def enumerate_append_eq)

lemma run_to_parquet_trace:
  "run (to_parquet_trace p parts) st (q, i) =
     (if q = p \<and> i < length parts then Some (parts ! i) else st (q, i))"
proof (induction parts rule: rev_induct)
  case Nil
  then show ?case by (simp add: to_parquet_trace_def)
next
  case (snoc c parts)
  then show ?case
    by (auto simp: to_parquet_trace_snoc nth_append less_Suc_eq)
qed


lemma save_run: "save dir parts st = run (save_trace dir parts) st"
  by (simp add: save_def save_trace_def to_parquet_run cleanup_def)

lemma save_apply:
  "save dir parts st (p, i) =
     (if p = dir \<and> i < length parts then Some (parts ! i)
      else if in_tree dir p then None else st (p, i))"
  by (simp add: save_def to_parquet_run run_to_parquet_trace cleanup_def rmtree_def)

subsection \<open>The test data evaluated\<close>

lemma px_fields:
  "Ticker (px t d c) = t" "Date (px t d c) = d" "Close (px t d c) = Fin c"
  by (simp_all add: px_def)

lemma assign_Year_fields:
  "Ticker (assign_Year r) = Ticker r" "Date (assign_Year r) = Date r"
  "Close (assign_Year r) = Close r" "Year (assign_Year r) = fst (Date r)"
  by (simp_all add: assign_Year_def)

lemmas trace_defs =
  download_trace_def ingest_trace_def ticker_trace_def yr_trace_def unique_def ticker_dt_def
  yr_dd_def from_pandas_def chunks.simps to_parquet_trace_def enumerate_eq_zip px_fields
  assign_Year_fields

lemma in_tree_data:
  "in_tree ''/data'' ''/data/AAPL/AAPL_2023''"
  "in_tree ''/data'' ''/data/AAPL/AAPL_2025''"
  "\<not> in_tree ''/data'' ''/x_2020''"
  "in_tree ''/features'' ''/features''"
  by (simp_all add: in_tree_def join2_def startswith_sep_def endswith_sep_def sep_def)

lemma tech_dt_syn: "tech_dt syn_raw = syn_dt"
proof -
  have "stack syn_raw = syn_dt"
    by (simp add: stack_def stack_row_def syn_raw_def quotes_def syn_dt_def px_def)
  then show ?thesis
    by (simp add: tech_dt_def) (simp add: syn_dt_def px_fields)
qed

lemma path_syn: "yr_path ''/data'' ''SYN'' 2024 = ''/data/SYN/SYN_2024''"
  by code_simp

lemma trace_syn:
  "download_trace ''/data'' syn_dt =
     [Rmtree ''/data'',
      WritePart ''/data/SYN/SYN_2024'' 0
        [assign_Year (px ''SYN'' (2024, 1, 2) 10), assign_Year (px ''SYN'' (2024, 1, 3) 20)],
      WritePart ''/data/SYN/SYN_2024'' 1 [assign_Year (px ''SYN'' (2024, 1, 4) 30)]]"
  by (simp add: trace_defs syn_dt_def path_syn upt_rec [of 0])

lemma bronze_syn:
  "syn_bronze (''/data/SYN/SYN_2024'', 0) =
     Some [assign_Year (px ''SYN'' (2024, 1, 2) 10), assign_Year (px ''SYN'' (2024, 1, 3) 20)]"
  "syn_bronze (''/data/SYN/SYN_2024'', Suc 0) = Some [assign_Year (px ''SYN'' (2024, 1, 4) 30)]"
  by (simp_all add: syn_bronze_def trace_syn)

lemma dd_px_syn: "dd_px syn_bronze syn_files = Some syn_df"
proof -
  have "read_parquet syn_bronze syn_files = Some syn_df"
    by (simp add: read_parquet_def syn_files_def bronze_syn syn_df_def syn_dt_def)
  moreover have "set_index_Ticker syn_df = syn_df"
    by (simp add: set_index_Ticker_def syn_df_def syn_dt_def px_fields assign_Year_fields)
  ultimately show ?thesis by (simp add: dd_px_def)
qed

lemma download_syn:
  "download_all (answering syn_raw) [''SYN''] (Some ''/data'') new_world =
     Inr \<lparr>bronze = syn_bronze, requests = [([''SYN''], start_date, end_date)]\<rparr>"
  by (simp add: download_answering tech_dt_syn syn_bronze_def new_world_def)

lemma featurize_syn:
  "featurize (\<lambda>df. [df]) syn_files (Some ''/features'') syn_bronze st =
     Inr (save ''/features'' [dd_rets (dd_shift syn_df)] st)"
  by (simp add: featurize_def dd_px_syn)

lemma features_syn:
  "map Close_lag_1 (dd_rets (dd_shift syn_df)) = [NaN, Fin 10, Fin 20]"
  "map Returns (dd_rets (dd_shift syn_df)) = [NaN, Fin 1, Fin (1 / 2)]"
  by (simp_all add: dd_rets_def dd_shift_def assign_Close_lag_1_def shift1_def with_returns_def
      with_lag_def syn_df_def syn_dt_def px_fields assign_Year_fields)


lemma tech_dt_five:
  "tech_dt five_raw =
     [stack_row five_raw (2024, 1, 2) ''A'', stack_row five_raw (2024, 1, 2) ''B'',
      stack_row five_raw (2024, 1, 2) ''C'', stack_row five_raw (2024, 1, 2) ''D'',
      stack_row five_raw (2024, 1, 2) ''E'']"
proof -
  have "stack five_raw = map (stack_row five_raw (2024, 1, 2)) five"
    by (simp add: stack_def five_raw_def quotes_def)
  then show ?thesis
    by (simp add: tech_dt_def five_def)
qed













subsection \<open>Lagged close and returns\<close>

lemma length_shift1 [simp]: "length (shift1 xs) = length xs"
  by (simp add: shift1_def)

lemma nth_shift1: "i < length xs \<Longrightarrow> shift1 xs ! i = (if i = 0 then NaN else xs ! (i - 1))"
  by (cases i) (simp_all add: shift1_def)

lemma length_assign_Close_lag_1 [simp]: "length (assign_Close_lag_1 x) = length x"
  by (simp add: assign_Close_lag_1_def)

lemma nth_assign_Close_lag_1:
  "i < length x \<Longrightarrow>
   assign_Close_lag_1 x ! i = with_lag (x ! i) (if i = 0 then NaN else Close (x ! (i - 1)))"
  by (simp add: assign_Close_lag_1_def nth_shift1)

lemma Ticker_assign_Close_lag_1:
  "r \<in> set (assign_Close_lag_1 x) \<Longrightarrow> \<exists>b \<in> set x. Ticker r = Ticker b"
  by (auto simp: assign_Close_lag_1_def with_lag_def set_zip)

text \<open>Picking one key out of groups that are put together key by key gives that group.\<close>

lemma filter_concat_groups:
  assumes "distinct ts" and "\<And>k x. k \<in> set ts \<Longrightarrow> x \<in> set (f k) \<Longrightarrow> key x = k"
  shows "filter (\<lambda>x. key x = t) (concat (map f ts)) = (if t \<in> set ts then f t else [])"
  using assms
proof (induction ts)
  case Nil
  then show ?case by simp
next
  case (Cons k ts)
  have other: "filter (\<lambda>x. key x = t) (f k') = []" if "k' \<in> set (k # ts)" "k' \<noteq> t" for k'
    using Cons.prems(2) that by (auto simp: filter_empty_conv)
  have same: "filter (\<lambda>x. key x = t) (f t) = f t" if "t \<in> set (k # ts)"
    using Cons.prems(2) that by (auto simp: filter_id_conv)
  have IH: "filter (\<lambda>x. key x = t) (concat (map f ts)) = (if t \<in> set ts then f t else [])"
    using Cons by simp
  show ?case
  proof (cases "k = t")
    case True
    with Cons.prems(1) have "t \<notin> set ts" by simp
    with True IH same show ?thesis by simp
  next
    case False
    with IH other show ?thesis by simp
  qed
qed

lemma series_dd_shift: "series t (dd_shift df) = assign_Close_lag_1 (series t df)"
proof -
  let ?ts = "sort (remdups (map Ticker df))"
  let ?f = "\<lambda>k. assign_Close_lag_1 (filter (\<lambda>r. Ticker r = k) df)"
  have "distinct ?ts" by simp
  moreover have "Ticker x = k" if "x \<in> set (?f k)" for k x
    using Ticker_assign_Close_lag_1 [OF that] by auto
  ultimately have "filter (\<lambda>x. Ticker x = t) (concat (map ?f ?ts)) =
      (if t \<in> set ?ts then ?f t else [])"
    by (intro filter_concat_groups) auto
  moreover have "?f t = []" if "t \<notin> set ?ts"
  proof -
    from that have "filter (\<lambda>r. Ticker r = t) df = []" by (auto simp: filter_empty_conv)
    then show ?thesis by (simp add: assign_Close_lag_1_def)
  qed
  ultimately show ?thesis by (auto simp: series_def dd_shift_def)
qed

lemma series_dd_rets: "series t (dd_rets df) = dd_rets (series t df)"
  by (simp add: series_def dd_rets_def filter_map comp_def with_returns_def)

text \<open>
  The lag test end to end: the response for the synthetic symbol is downloaded into an
  empty bronze store under \<^verbatim>\<open>/data\<close>, the two part files of its partition are read back
  and the features are written to \<^verbatim>\<open>/features\<close> as one part file.
\<close>

lemma lag_test:
  "(case download_all (answering syn_raw) [''SYN''] (Some ''/data'') new_world of
      Inl e \<Rightarrow> False
    | Inr w \<Rightarrow>
        (case featurize (\<lambda>df. [df]) syn_files (Some ''/features'') (bronze w) Map.empty of
           Inl e \<Rightarrow> False
         | Inr s \<Rightarrow>
             map_option (map Close_lag_1) (s (''/features'', 0)) = Some [NaN, Fin 10, Fin 20] \<and>
             map_option (map Returns) (s (''/features'', 0)) = Some [NaN, Fin 1, Fin (1 / 2)]))"
  by (simp add: download_syn featurize_syn save_apply features_syn)

text \<open>
  Claim C2: in the frame \<^verbatim>\<open>dd_rets\<close> that featurize computes from a frame \<open>df\<close>, the series
  of every symbol \<open>t\<close> has the rows of the symbol's series in \<open>df\<close>, in the same order, and
  row \<open>i\<close> carries as \<^verbatim>\<open>Close_lag_1\<close> the close of row \<open>i - 1\<close> of that series, the first row
  carrying the null value NaN; for a series in ascending order of date that is the close
  of the date before. For the synthetic symbol with closes 10, 20, 30 on three
  consecutive dates, downloaded and then featurized, the stored \<^verbatim>\<open>Close_lag_1\<close> is
  [NaN, 10, 20] and the stored \<^verbatim>\<open>Returns\<close> is [NaN, 1.0, 0.5].
\<close>

theorem close_lag_1_is_previous_close:
  "i < length (series t df) \<Longrightarrow>
     (length (series t (dd_rets (dd_shift df))) = length (series t df) \<and>
      Date (series t (dd_rets (dd_shift df)) ! i) = Date (series t df ! i) \<and>
      Close (series t (dd_rets (dd_shift df)) ! i) = Close (series t df ! i) \<and>
      Close_lag_1 (series t (dd_rets (dd_shift df)) ! i) =
        (if i = 0 then NaN else Close (series t df ! (i - 1)))) \<and>
     (case download_all (answering syn_raw) [''SYN''] (Some ''/data'') new_world of
        Inl e \<Rightarrow> False
      | Inr w \<Rightarrow>
          (case featurize (\<lambda>df. [df]) syn_files (Some ''/features'') (bronze w) Map.empty of
             Inl e \<Rightarrow> False
           | Inr s \<Rightarrow>
               map_option (map Close_lag_1) (s (''/features'', 0)) = Some [NaN, Fin 10, Fin 20] \<and>
               map_option (map Returns) (s (''/features'', 0)) = Some [NaN, Fin 1, Fin (1 / 2)]))"
  unfolding series_dd_rets series_dd_shift
  using lag_test
  by (simp add: dd_rets_def nth_assign_Close_lag_1 with_returns_def with_lag_def)

theorem close_lag_1_is_previous_close_witness:
  "1 < length (series ''SYN'' syn_df) \<and>
   Close_lag_1 (series ''SYN'' (dd_rets (dd_shift syn_df)) ! 1) = Fin 10"
proof -
  have s: "series ''SYN'' syn_df = syn_df"
    by (simp add: series_def syn_df_def syn_dt_def px_fields assign_Year_fields)
  have h: "1 < length (series ''SYN'' syn_df)"
    unfolding s by (simp add: syn_df_def syn_dt_def)
  have c0: "Close (series ''SYN'' syn_df ! 0) = Fin 10"
    unfolding s by (simp add: syn_df_def syn_dt_def px_fields assign_Year_fields)
  from close_lag_1_is_previous_close [OF h] c0 h show ?thesis by simp
qed




subsection \<open>Reshaping the response\<close>

lemma length_stack: "length (stack raw) = length (raw_index raw) * length (raw_tickers raw)"
  by (simp add: stack_def length_concat comp_def sum_list_triv)

lemma series_stack:
  "series t (stack raw) =
     concat (map (\<lambda>d. map (stack_row raw d) (filter (\<lambda>u. u = t) (raw_tickers raw))) (raw_index raw))"
  by (simp add: series_def stack_def filter_concat comp_def filter_map)

lemma length_series_stack:
  "length (series t (stack raw)) =
     length (raw_index raw) * length (filter (\<lambda>u. u = t) (raw_tickers raw))"
  by (simp add: series_stack length_concat comp_def sum_list_triv)

lemma series_tech_dt:
  "series t (tech_dt raw) = sort_key (\<lambda>r. (Ticker r, Date r)) (series t (stack raw))"
  by (simp add: series_def tech_dt_def filter_sort)

text \<open>
  Claim C8, as stated: a symbol with no data in the range contributes zero rows, and a
  symbol the provider does not recognise is left out of the result and recorded as a
  partial failure, so that one such symbol among five gives rows for the other four.
  The reshaping keeps every column of the response: of five symbols on one day, the
  last one without data, all five have a row, the fifth with a null close. Nothing is
  recorded.
\<close>

theorem missing_symbol_rows_counterexample:
  "raw_tickers five_raw = [''A'', ''B'', ''C'', ''D'', ''E''] \<and>
   map (\<lambda>r. raw_cell five_raw ''Close'' ''E'' r) (raw_index five_raw) = [NaN] \<and>
   map (\<lambda>r. (Ticker r, Close r)) (tech_dt five_raw) =
     [(''A'', Fin 1), (''B'', Fin 1), (''C'', Fin 1), (''D'', Fin 1), (''E'', NaN)]"
  by (simp add: tech_dt_five stack_row_def) (simp add: five_raw_def quotes_def five_def)

text \<open>
  Claim C8, amended: for every response, the reshaping gives exactly one row for each
  date of the index and each symbol of the columns, holding the cells of the response
  whatever they are: a symbol without data contributes one row of nulls per date, no
  symbol of the response is left out, no failure is recorded, and the reshaping never
  raises.
\<close>

theorem tech_dt_keeps_every_symbol:
  "length (tech_dt raw) = length (raw_index raw) * length (raw_tickers raw) \<and>
   length (series t (tech_dt raw)) =
     length (raw_index raw) * length (filter (\<lambda>u. u = t) (raw_tickers raw)) \<and>
   set (tech_dt raw) =
     {stack_row raw d u | d u. d \<in> set (raw_index raw) \<and> u \<in> set (raw_tickers raw)}"
  by (simp add: series_tech_dt length_series_stack set_tech_dt) (simp add: tech_dt_def length_stack)

subsection \<open>Failures and repeated runs of download_all\<close>








subsection \<open>Writing a partition\<close>







subsection \<open>Replacing the silver dataset\<close>

text \<open>
  Claim C5, as stated: the silver dataset is replaced atomically, so that an interrupted
  featurize leaves the old dataset valid and visible. The notebook removes the old
  dataset and then writes the new part files in its place: after the first step of the
  save (and after the second) the old dataset is gone and nothing has been written.
\<close>

theorem interrupted_save_counterexample:
  "old_silver (''/features'', 0) = Some [zero_row] \<and>
   run (take 1 (save_trace ''/features'' [dd_rets (dd_shift syn_df)])) old_silver
     (''/features'', 0) = None \<and>
   run (take 2 (save_trace ''/features'' [dd_rets (dd_shift syn_df)])) old_silver
     (''/features'', 0) = None"
  by (simp add: save_trace_def old_silver_def rmtree_def in_tree_data)

text \<open>
  Claim C5, amended: featurize writes the whole result as the silver dataset in place
  of the old one, by removing the old dataset and then writing the part files of the
  new one directly at the dataset root; there is no temporary location and no swap.
  After a completed run the dataset directory holds exactly the partitions of the new
  result and nothing else of the old tree; after the first step of the save the tree is
  empty.
\<close>

theorem silver_replaced_in_place:
  "dd_px bronze_st parquet_files = Some df \<Longrightarrow>
     featurize partitions parquet_files (Some dir) bronze_st silver_st =
       Inr (run (save_trace dir (partitions (dd_rets (dd_shift df)))) silver_st) \<and>
     run (take 1 (save_trace dir (partitions (dd_rets (dd_shift df))))) silver_st =
       rmtree dir silver_st \<and>
     run (save_trace dir (partitions (dd_rets (dd_shift df)))) silver_st (p, i) =
       (if p = dir \<and> i < length (partitions (dd_rets (dd_shift df)))
        then Some (partitions (dd_rets (dd_shift df)) ! i)
        else if in_tree dir p then None else silver_st (p, i))"
  by (simp add: featurize_def save_run [symmetric] save_apply) (simp add: save_trace_def)

theorem silver_replaced_in_place_witness:
  "dd_px syn_bronze syn_files = Some syn_df \<and>
   featurize (\<lambda>df. [df]) syn_files (Some ''/features'') syn_bronze old_silver =
     Inr (run (save_trace ''/features'' [dd_rets (dd_shift syn_df)]) old_silver) \<and>
   run (save_trace ''/features'' [dd_rets (dd_shift syn_df)]) old_silver (''/features'', 0) =
     Some (dd_rets (dd_shift syn_df))"
  using silver_replaced_in_place [OF dd_px_syn, of "\<lambda>df. [df]" "''/features''" old_silver
      "''/features''" 0]
  by (simp add: dd_px_syn)

subsection \<open>Writing the rows and reading them back\<close>








































end
